theory Spec2Isabelle
  imports Complex_Main
begin

section \<open>Drywall and insulation estimators\<close>

text \<open>
  A shallow embedding of \<^verbatim>\<open>Drywall_and_Insulation_Estimator.py\<close>. The two Streamlit
  functions \<^verbatim>\<open>run_drywall_estimator\<close> and \<^verbatim>\<open>run_insulation_estimator\<close> read form
  widgets and compute a report in one pass. Here the widget values are the fields of an
  input record and the computed values are the fields of a report record; the blocks of
  the source (areas, high parts, material takeoff, costs and pricing) are definitions of
  their own, named after the variables they assign.

  Python floats are taken as exact reals and Python ints as \<^typ>\<open>int\<close>;
  \<^verbatim>\<open>math.ceil\<close> and \<^verbatim>\<open>math.floor\<close> are \<^const>\<open>ceiling\<close> and \<^const>\<open>floor\<close>.
  Rounding, overflow and underflow of the IEEE arithmetic are outside the model.
\<close>

subsection \<open>Exceptions\<close>

datatype py_error = ZeroDivisionError | KeyError

text \<open>Python's true division \<^verbatim>\<open>a / b\<close> with a divisor that is not a literal.\<close>

definition truediv :: "real \<Rightarrow> real \<Rightarrow> py_error + real" where
  "truediv a b = (if b = 0 then Inl ZeroDivisionError else Inr (a / b))"

text \<open>Sequencing: the first exception raised is the result of the whole computation.\<close>

definition and_then :: "py_error + 'a \<Rightarrow> ('a \<Rightarrow> py_error + 'b) \<Rightarrow> py_error + 'b" where
  "and_then m f = (case m of Inl e \<Rightarrow> Inl e | Inr v \<Rightarrow> f v)"

subsection \<open>Drywall estimator: form values\<close>

text \<open>The two options of the sheet-size select box.\<close>

datatype sheet_size_option = Sheet_4x8 | Sheet_4x12

text \<open>
  One room of the form. \<^verbatim>\<open>windows\<close> and \<^verbatim>\<open>doors\<close> are the lists of
  \<^verbatim>\<open>(width, height)\<close> pairs built by the form, empty when the check box is off.
\<close>

record room_input =
  room_name :: string
  room_length :: real
  room_width :: real
  room_height :: real
  include_ceiling :: bool
  windows :: "(real \<times> real) list"
  doors :: "(real \<times> real) list"

record drywall_inputs =
  include_waste :: bool
  waste_pct_field :: real
  mud_gal_per_1000 :: real
  mud_pail_gal :: real
  tape_sqft_per_roll :: real
  screws_per_sqft :: real
  screws_per_box :: int
  corner_bead_lf_per_1000 :: real
  corner_bead_piece_len_ft :: real
  sheet_size :: sheet_size_option
  include_resilient_channel :: bool
  rc_spacing_in :: int
  rc_piece_length_ft :: real
  cost_per_sheet :: real
  cost_mud_pail :: real
  cost_tape_roll :: real
  cost_screws_box :: real
  cost_corner_bead_piece :: real
  cost_rc_piece :: real
  pot_light_count :: int
  pot_light_cost :: real
  labour_rate_sqft :: real
  labour_rate_sqm :: real
  tax_pct :: real
  labour_high_part_flat :: real
  labour_high_part_rate_sqft :: real
  rooms :: "room_input list"
  high_parts :: "(real \<times> real) list"
  session_state :: "string \<rightharpoonup> real"

definition FT2_TO_M2 :: real where
  "FT2_TO_M2 = 9290304 / 100000000"

text \<open>\<^verbatim>\<open>waste_pct = st.number_input(...) if include_waste else 0.0\<close>\<close>

definition waste_pct :: "drywall_inputs \<Rightarrow> real" where
  "waste_pct i = (if include_waste i then waste_pct_field i else 0)"

subsection \<open>Drywall estimator: areas of one room\<close>

text \<open>One row of \<^verbatim>\<open>rooms_data\<close>; the fields are the keys of the dictionary.\<close>

record room_row =
  room :: string
  length_ft :: real
  width_ft :: real
  height_ft :: real
  perimeter_ft :: real
  wall_area_net_ft2 :: real
  ceiling_area_ft2 :: real
  total_area_ft2 :: real
  total_with_waste_ft2 :: real

text \<open>\<^verbatim>\<open>sum(w * h for w, h in windows) + sum(w * h for w, h in doors)\<close>\<close>

definition openings_area :: "room_input \<Rightarrow> real" where
  "openings_area r =
     sum_list (map (\<lambda>(w, h). w * h) (windows r)) + sum_list (map (\<lambda>(w, h). w * h) (doors r))"

definition perimeter :: "room_input \<Rightarrow> real" where
  "perimeter r = 2 * (room_length r + room_width r)"

definition wall_area_gross :: "room_input \<Rightarrow> real" where
  "wall_area_gross r = perimeter r * room_height r"

definition wall_area_net :: "room_input \<Rightarrow> real" where
  "wall_area_net r = max (wall_area_gross r - openings_area r) 0"

definition ceiling_area_of :: "room_input \<Rightarrow> real" where
  "ceiling_area_of r = (if include_ceiling r then room_length r * room_width r else 0)"

definition total_area_of :: "room_input \<Rightarrow> real" where
  "total_area_of r = wall_area_net r + ceiling_area_of r"

definition waste_multiplier :: "real \<Rightarrow> real" where
  "waste_multiplier wp = 1 + wp / 100"

definition total_with_waste_of :: "real \<Rightarrow> room_input \<Rightarrow> real" where
  "total_with_waste_of wp r = total_area_of r * waste_multiplier wp"

definition room_areas :: "real \<Rightarrow> room_input \<Rightarrow> room_row" where
  "room_areas wp r =
     \<lparr> room = room_name r,
       length_ft = room_length r,
       width_ft = room_width r,
       height_ft = room_height r,
       perimeter_ft = perimeter r,
       wall_area_net_ft2 = wall_area_net r,
       ceiling_area_ft2 = ceiling_area_of r,
       total_area_ft2 = total_area_of r,
       total_with_waste_ft2 = total_with_waste_of wp r \<rparr>"

subsection \<open>Drywall estimator: the loop over the rooms\<close>

text \<open>
  The loop appends one row per room and, when the resilient channel is enabled, adds to
  \<^verbatim>\<open>rc_total_lf\<close>:
  \<^verbatim>\<open>rows = math.floor((width * 12) / rc_spacing_in) + 1; rc_total_lf += rows * length\<close>.
  The division is by a form value, so it is the one place of the loop that can raise.
\<close>

definition rc_step :: "drywall_inputs \<Rightarrow> room_input \<Rightarrow> real \<Rightarrow> py_error + real" where
  "rc_step i r rc_total_lf =
     (if include_resilient_channel i \<and> include_ceiling r \<and> room_width r > 0 \<and> room_length r > 0
      then and_then (truediv (room_width r * 12) (of_int (rc_spacing_in i)))
             (\<lambda>q. Inr (rc_total_lf + of_int (\<lfloor>q\<rfloor> + 1) * room_length r))
      else Inr rc_total_lf)"

fun rooms_loop ::
  "drywall_inputs \<Rightarrow> room_input list \<Rightarrow> room_row list \<times> real \<Rightarrow> py_error + (room_row list \<times> real)"
where
  "rooms_loop i [] acc = Inr acc"
| "rooms_loop i (r # rs) (rooms_data, rc_total_lf) =
     and_then (rc_step i r rc_total_lf)
       (\<lambda>rc_total_lf'. rooms_loop i rs (rooms_data @ [room_areas (waste_pct i) r], rc_total_lf'))"

subsection \<open>Drywall estimator: high parts\<close>

text \<open>
  Each high part is a pair \<^verbatim>\<open>(hp_height, hp_area)\<close>; the accumulator is
  \<^verbatim>\<open>(qualifying_hp_area_ft2, qualifying_hp_count)\<close>.
\<close>

definition high_part_step :: "real \<times> int \<Rightarrow> real \<times> real \<Rightarrow> real \<times> int" where
  "high_part_step acc hp =
     (case (acc, hp) of ((qualifying_hp_area_ft2, qualifying_hp_count), (hp_height, hp_area)) \<Rightarrow>
        if hp_height > 10 \<and> hp_area > 64
        then (qualifying_hp_area_ft2 + hp_area, qualifying_hp_count + 1)
        else (qualifying_hp_area_ft2, qualifying_hp_count))"

fun high_parts_loop :: "(real \<times> real) list \<Rightarrow> real \<times> int \<Rightarrow> real \<times> int" where
  "high_parts_loop [] acc = acc"
| "high_parts_loop (hp # hps) acc = high_parts_loop hps (high_part_step acc hp)"

subsection \<open>Drywall estimator: material takeoff\<close>

record takeoff =
  sheets :: int
  mud_gal :: real
  mud_pails :: int
  tape_rolls :: int
  screws_qty :: int
  screws_boxes :: int
  corner_bead_lf :: real
  corner_bead_pcs :: int

text \<open>\<^verbatim>\<open>sheet_area = 32.0 if "4x8" in sheet_size else 48.0\<close>\<close>

definition sheet_area :: "sheet_size_option \<Rightarrow> real" where
  "sheet_area s = (case s of Sheet_4x8 \<Rightarrow> 32 | Sheet_4x12 \<Rightarrow> 48)"

text \<open>
  Every quantity is \<^verbatim>\<open>math.ceil(x / rate) if rate > 0 else 0\<close>; the divisions by the
  literal \<^verbatim>\<open>1000.0\<close> cannot raise and are written with \<open>/\<close>.
\<close>

definition material_takeoff :: "drywall_inputs \<Rightarrow> real \<Rightarrow> py_error + takeoff" where
  "material_takeoff i total_waste =
     and_then (if sheet_area (sheet_size i) > 0
               then and_then (truediv total_waste (sheet_area (sheet_size i))) (\<lambda>q. Inr \<lceil>q\<rceil>)
               else Inr 0)
     (\<lambda>sheets_v.
     let mud_gal_v = (total_waste / 1000) * mud_gal_per_1000 i in
     and_then (if mud_pail_gal i > 0
               then and_then (truediv mud_gal_v (mud_pail_gal i)) (\<lambda>q. Inr \<lceil>q\<rceil>)
               else Inr 0)
     (\<lambda>mud_pails_v.
     and_then (if tape_sqft_per_roll i > 0
               then and_then (truediv total_waste (tape_sqft_per_roll i)) (\<lambda>q. Inr \<lceil>q\<rceil>)
               else Inr 0)
     (\<lambda>tape_rolls_v.
     let screws_qty_v = \<lceil>total_waste * screws_per_sqft i\<rceil> in
     and_then (if screws_per_box i > 0
               then and_then (truediv (of_int screws_qty_v) (of_int (screws_per_box i)))
                      (\<lambda>q. Inr \<lceil>q\<rceil>)
               else Inr 0)
     (\<lambda>screws_boxes_v.
     let corner_bead_lf_v = (total_waste / 1000) * corner_bead_lf_per_1000 i in
     and_then (if corner_bead_piece_len_ft i > 0
               then and_then (truediv corner_bead_lf_v (corner_bead_piece_len_ft i))
                      (\<lambda>q. Inr \<lceil>q\<rceil>)
               else Inr 0)
     (\<lambda>corner_bead_pcs_v.
     Inr \<lparr> sheets = sheets_v,
           mud_gal = mud_gal_v,
           mud_pails = mud_pails_v,
           tape_rolls = tape_rolls_v,
           screws_qty = screws_qty_v,
           screws_boxes = screws_boxes_v,
           corner_bead_lf = corner_bead_lf_v,
           corner_bead_pcs = corner_bead_pcs_v \<rparr>)))))"

subsection \<open>Drywall estimator: costs and pricing\<close>

record pricing =
  mat_board_cost :: real
  mat_mud_cost :: real
  mat_tape_cost :: real
  mat_screws_cost :: real
  mat_corner_cost :: real
  mat_pot_lights_cost :: real
  material_subtotal :: real
  charge_area_ft2 :: real
  charge_area_m2 :: real
  labour_area_cost :: real
  labour_high_parts_cost :: real
  labour_subtotal :: real
  subtotal_no_tax :: real
  total_with_tax :: real
  cash_price :: real

text \<open>
  \<^verbatim>\<open>x = st.session_state.get(k, 0.0) if k in st.session_state else x\<close>: the value
  stored under the key when there is one, the local value otherwise.
\<close>

definition session_or_local :: "(string \<rightharpoonup> real) \<Rightarrow> string \<Rightarrow> real \<Rightarrow> real" where
  "session_or_local st k v = (case st k of Some x \<Rightarrow> x | None \<Rightarrow> v)"

definition costs_and_pricing ::
  "drywall_inputs \<Rightarrow> takeoff \<Rightarrow> real \<Rightarrow> real \<Rightarrow> int \<Rightarrow> pricing"
where
  "costs_and_pricing i t total_waste qualifying_hp_area qualifying_hp_cnt =
    (let board = of_int (sheets t) * cost_per_sheet i;
         mud = of_int (mud_pails t) * cost_mud_pail i;
         tape = of_int (tape_rolls t) * cost_tape_roll i;
         screws = of_int (screws_boxes t) * cost_screws_box i;
         corner = of_int (corner_bead_pcs t) * cost_corner_bead_piece i;
         pot = of_int (pot_light_count i) * pot_light_cost i;
         material = sum_list [board, mud, tape, screws, corner, pot];
         charge_ft2 = total_waste + qualifying_hp_area;
         charge_m2 = charge_ft2 * FT2_TO_M2;
         labour_area =
           (if labour_rate_sqft i > 0 then charge_ft2 * labour_rate_sqft i
            else if labour_rate_sqm i > 0 then charge_m2 * labour_rate_sqm i
            else 0);
         flat = session_or_local (session_state i) ''labour_high_part_flat''
                  (labour_high_part_flat i);
         rate = session_or_local (session_state i) ''labour_high_part_rate_sqft''
                  (labour_high_part_rate_sqft i);
         labour_high =
           (if qualifying_hp_cnt > 0 \<and> flat > 0 then of_int qualifying_hp_cnt * flat
            else qualifying_hp_area * rate);
         labour = labour_area + labour_high;
         subtotal = material + labour;
         tax_pct_val = tax_pct i
     in \<lparr> mat_board_cost = board,
          mat_mud_cost = mud,
          mat_tape_cost = tape,
          mat_screws_cost = screws,
          mat_corner_cost = corner,
          mat_pot_lights_cost = pot,
          material_subtotal = material,
          charge_area_ft2 = charge_ft2,
          charge_area_m2 = charge_m2,
          labour_area_cost = labour_area,
          labour_high_parts_cost = labour_high,
          labour_subtotal = labour,
          subtotal_no_tax = subtotal,
          total_with_tax =
            (if tax_pct_val > 0 then subtotal * (1 + tax_pct_val / 100) else subtotal),
          cash_price = subtotal \<rparr>)"

subsection \<open>Drywall estimator: the whole run\<close>

text \<open>A row of the data frame: the row of \<^verbatim>\<open>rooms_data\<close> and the two metric columns.\<close>

record df_row =
  row :: room_row
  total_area_m2 :: real
  total_with_waste_m2 :: real

definition df_of :: "room_row list \<Rightarrow> df_row list" where
  "df_of rooms_data =
     map (\<lambda>r. \<lparr> row = r,
                total_area_m2 = total_area_ft2 r * FT2_TO_M2,
                total_with_waste_m2 = total_with_waste_ft2 r * FT2_TO_M2 \<rparr>) rooms_data"

record drywall_report =
  df :: "df_row list"
  total_ft2 :: real
  total_m2 :: real
  total_waste_ft2 :: real
  total_waste_m2 :: real
  materials :: takeoff
  prices :: pricing
  qualifying_hp_count :: int
  qualifying_hp_area_ft2 :: real

text \<open>
  The block under \<^verbatim>\<open>if rooms_data:\<close>, from the rows and the pair
  \<^verbatim>\<open>(qualifying_hp_area_ft2, qualifying_hp_count)\<close> that the two loops leave. With no
  row the source shows a notice and no figures: the result is \<open>Inr None\<close>.
\<close>

definition summary_and_takeoff ::
  "drywall_inputs \<Rightarrow> room_row list \<Rightarrow> real \<times> int \<Rightarrow> py_error + drywall_report option"
where
  "summary_and_takeoff i rooms_data hp =
     (case hp of (hp_area, hp_count) \<Rightarrow>
       if rooms_data = [] then Inr None
       else
         let total = sum_list (map total_area_ft2 rooms_data);
             total_waste = sum_list (map total_with_waste_ft2 rooms_data)
         in and_then (material_takeoff i total_waste)
            (\<lambda>t. Inr (Some
              \<lparr> df = df_of rooms_data,
                total_ft2 = total,
                total_m2 = total * FT2_TO_M2,
                total_waste_ft2 = total_waste,
                total_waste_m2 = total_waste * FT2_TO_M2,
                materials = t,
                prices = costs_and_pricing i t total_waste hp_area hp_count,
                qualifying_hp_count = hp_count,
                qualifying_hp_area_ft2 = hp_area \<rparr>)))"

text \<open>
  The whole run: \<open>Inl e\<close> when it raises \<open>e\<close>. The value of \<^verbatim>\<open>rc_total_lf\<close> that
  the loop leaves is overwritten before the takeoff and is read nowhere.
\<close>

definition run_drywall_estimator :: "drywall_inputs \<Rightarrow> py_error + drywall_report option" where
  "run_drywall_estimator i =
     and_then (rooms_loop i (rooms i) ([], 0))
       (\<lambda>(rooms_data, rc_total_lf).
          summary_and_takeoff i rooms_data (high_parts_loop (high_parts i) (0, 0)))"

subsection \<open>Insulation estimator: material specifications\<close>

record material_spec =
  coverage_per_bag :: real
  pieces_per_bag :: int

text \<open>
  The dictionary \<^verbatim>\<open>MATERIAL_SPECS\<close>, in the order it is written: R-value, then width in
  inches. The inner key \<^verbatim>\<open>'widths'\<close> is present in every entry and is left out.
\<close>

definition MATERIAL_SPECS :: "(string \<times> (int \<times> material_spec) list) list" where
  "MATERIAL_SPECS =
    [(''R12'', [(15, \<lparr>coverage_per_bag = 100.0, pieces_per_bag = 20\<rparr>),
               (23, \<lparr>coverage_per_bag = 153.3, pieces_per_bag = 20\<rparr>)]),
     (''R14'', [(15, \<lparr>coverage_per_bag = 78.3, pieces_per_bag = 16\<rparr>),
               (23, \<lparr>coverage_per_bag = 120.1, pieces_per_bag = 16\<rparr>)]),
     (''R20'', [(15, \<lparr>coverage_per_bag = 80.0, pieces_per_bag = 16\<rparr>),
               (23, \<lparr>coverage_per_bag = 122.7, pieces_per_bag = 16\<rparr>)]),
     (''R22'', [(15, \<lparr>coverage_per_bag = 49.0, pieces_per_bag = 10\<rparr>),
               (23, \<lparr>coverage_per_bag = 75.1, pieces_per_bag = 10\<rparr>)]),
     (''R28'', [(16, \<lparr>coverage_per_bag = 53.3, pieces_per_bag = 10\<rparr>),
               (24, \<lparr>coverage_per_bag = 80.0, pieces_per_bag = 10\<rparr>)]),
     (''R31'', [(16, \<lparr>coverage_per_bag = 42.7, pieces_per_bag = 8\<rparr>),
               (24, \<lparr>coverage_per_bag = 64.0, pieces_per_bag = 8\<rparr>)]),
     (''R40'', [(16, \<lparr>coverage_per_bag = 32.0, pieces_per_bag = 6\<rparr>),
               (24, \<lparr>coverage_per_bag = 48.0, pieces_per_bag = 6\<rparr>)])]"

text \<open>Subscription \<^verbatim>\<open>d[k]\<close> of a dictionary: a missing key raises.\<close>

definition getitem :: "('k \<times> 'v) list \<Rightarrow> 'k \<Rightarrow> py_error + 'v" where
  "getitem d k = (case map_of d k of None \<Rightarrow> Inl KeyError | Some v \<Rightarrow> Inr v)"

text \<open>\<^verbatim>\<open>MATERIAL_SPECS[r_value]['widths'][width]\<close>\<close>

definition select_spec :: "string \<Rightarrow> int \<Rightarrow> py_error + material_spec" where
  "select_spec r_value width =
     and_then (getitem MATERIAL_SPECS r_value) (\<lambda>widths. getitem widths width)"

subsection \<open>Insulation estimator: form values\<close>

text \<open>
  A cathedral section is the triple \<^verbatim>\<open>(length, base_width, height_above)\<close>. The form
  builds one section for each of \<^verbatim>\<open>int(num_cat)\<close> indices, so \<^verbatim>\<open>num_cat\<close> is the
  length of \<^verbatim>\<open>cat_sections\<close>. \<^verbatim>\<open>run_estimate\<close> is the value of the button.
\<close>

record insulation_inputs =
  wall_r_value :: string
  wall_width :: int
  wall_price_per_bag :: real
  cat_r_value :: string
  cat_width :: int
  cat_price_per_bag :: real
  ceiling_cov_per_bag :: real
  ceiling_price_per_bag :: real
  wall_linear_feet :: real
  wall_height :: real
  wall_stud_spacing :: int
  cat_sections :: "(real \<times> real \<times> real) list"
  cat_spacing_in :: int
  blow_sq :: int
  vault_sq :: int
  wall_labour_rate :: real
  ceiling_hourly :: real
  ceiling_hours :: real
  ceiling_flat_srchg :: real
  cathedral_hourly :: real
  cathedral_hours :: real
  cathedral_flat :: real
  run_estimate :: bool

definition num_cat :: "insulation_inputs \<Rightarrow> int" where
  "num_cat i = int (length (cat_sections i))"

subsection \<open>Insulation estimator: the computation\<close>

text \<open>\<^verbatim>\<open>slope = math.sqrt(max((bw / 2) ** 2 + rise ** 2, 0.0))\<close>\<close>

definition slope :: "real \<Rightarrow> real \<Rightarrow> real" where
  "slope bw rise = sqrt (max ((bw / 2) ^ 2 + rise ^ 2) 0)"

text \<open>\<^verbatim>\<open>for length, bw, rise in cat_sections: total_cat_area += 2 * slope * length\<close>\<close>

fun cat_area_loop :: "(real \<times> real \<times> real) list \<Rightarrow> real \<Rightarrow> real" where
  "cat_area_loop [] total_cat_area = total_cat_area"
| "cat_area_loop ((len, bw, rise) # cs) total_cat_area =
     cat_area_loop cs (total_cat_area + 2 * slope bw rise * len)"

text \<open>
  \<^verbatim>\<open>[math.ceil(bw / (cat_spacing_in / 12)) if cat_spacing_in else 0 for _, bw, _ in cat_sections]\<close>
\<close>

fun cat_batts_of :: "int \<Rightarrow> (real \<times> real \<times> real) list \<Rightarrow> py_error + int list" where
  "cat_batts_of spacing [] = Inr []"
| "cat_batts_of spacing ((len, bw, rise) # cs) =
     and_then (if spacing \<noteq> 0
               then and_then (truediv bw (of_int spacing / 12)) (\<lambda>q. Inr \<lceil>q\<rceil>)
               else Inr 0)
       (\<lambda>b. and_then (cat_batts_of spacing cs) (\<lambda>bs. Inr (b # bs)))"

record insulation_report =
  wall_area :: real
  wall_bags :: int
  wall_pieces :: int
  wall_cost :: real
  total_cat_area :: real
  cat_bags :: int
  cat_pieces :: int
  cat_cost :: real
  ceiling_area :: int
  ceiling_bags :: int
  ceiling_mat_cost :: real
  wall_batts :: int
  cat_batts :: "int list"
  wall_lab :: real
  area_lab :: real
  ceil_lab :: real
  cat_surch :: real
  mat_total :: real
  lab_total :: real
  total_tax :: real
  total_buf :: real

text \<open>The block under \<^verbatim>\<open>if st.button("Run Estimate")\<close>, for the selected specifications.\<close>

definition estimate ::
  "insulation_inputs \<Rightarrow> material_spec \<Rightarrow> material_spec \<Rightarrow> py_error + insulation_report"
where
  "estimate i wp cp =
    (let wall_area_v = wall_linear_feet i * wall_height i;
         wb_cov = coverage_per_bag wp;
         wb_pcs = pieces_per_bag wp
     in
     and_then (if wb_cov > 0
               then and_then (truediv wall_area_v wb_cov) (\<lambda>q. Inr \<lceil>q\<rceil>)
               else Inr 0)
     (\<lambda>wall_bags_v.
     let wall_cost_v = of_int wall_bags_v * wall_price_per_bag i;
         cs_cov = coverage_per_bag cp;
         cs_pcs = pieces_per_bag cp;
         total_cat_area_v = cat_area_loop (cat_sections i) 0;
         buffered_cov = (if cs_cov > 0 then cs_cov * 1.10 else 0)
     in
     and_then (if buffered_cov > 0
               then and_then (truediv total_cat_area_v buffered_cov) (\<lambda>q. Inr \<lceil>q\<rceil>)
               else Inr 0)
     (\<lambda>cat_bags_v.
     let cat_cost_v = of_int cat_bags_v * cat_price_per_bag i;
         ceiling_area_v = max (blow_sq i - vault_sq i) 0
     in
     and_then (if ceiling_cov_per_bag i \<noteq> 0
               then and_then (truediv (of_int ceiling_area_v) (ceiling_cov_per_bag i))
                      (\<lambda>q. Inr \<lceil>q\<rceil>)
               else Inr 0)
     (\<lambda>ceiling_bags_v.
     let ceiling_mat_cost_v = of_int ceiling_bags_v * ceiling_price_per_bag i
     in
     and_then (if wall_stud_spacing i \<noteq> 0
               then and_then (truediv (wall_linear_feet i) (of_int (wall_stud_spacing i) / 12))
                      (\<lambda>q. Inr \<lceil>q\<rceil>)
               else Inr 0)
     (\<lambda>wall_batts_v.
     and_then (cat_batts_of (cat_spacing_in i) (cat_sections i))
     (\<lambda>cat_batts_v.
     let wall_lab_v = wall_area_v * wall_labour_rate i;
         area_lab_v = (wall_area_v + total_cat_area_v) * wall_labour_rate i;
         ceil_lab_v = ceiling_hourly i * ceiling_hours i + ceiling_flat_srchg i;
         cat_surch_v = ((cathedral_hourly i * cathedral_hours i) + cathedral_flat i)
                         * of_int (num_cat i);
         mat_total_v = wall_cost_v + cat_cost_v + ceiling_mat_cost_v;
         lab_total_v = wall_lab_v + area_lab_v + ceil_lab_v + cat_surch_v;
         total_tax_v = (mat_total_v + lab_total_v) * 1.05;
         total_buf_v = total_tax_v * 1.10
     in
     Inr \<lparr> wall_area = wall_area_v,
           wall_bags = wall_bags_v,
           wall_pieces = wall_bags_v * wb_pcs,
           wall_cost = wall_cost_v,
           total_cat_area = total_cat_area_v,
           cat_bags = cat_bags_v,
           cat_pieces = cat_bags_v * cs_pcs,
           cat_cost = cat_cost_v,
           ceiling_area = ceiling_area_v,
           ceiling_bags = ceiling_bags_v,
           ceiling_mat_cost = ceiling_mat_cost_v,
           wall_batts = wall_batts_v,
           cat_batts = cat_batts_v,
           wall_lab = wall_lab_v,
           area_lab = area_lab_v,
           ceil_lab = ceil_lab_v,
           cat_surch = cat_surch_v,
           mat_total = mat_total_v,
           lab_total = lab_total_v,
           total_tax = total_tax_v,
           total_buf = total_buf_v \<rparr>))))))"

text \<open>
  The two specifications are looked up when the Materials tab is drawn, before the button
  is read. The result is \<open>Inr None\<close> when the button is not pressed.
\<close>

definition run_insulation_estimator ::
  "insulation_inputs \<Rightarrow> py_error + insulation_report option"
where
  "run_insulation_estimator i =
     and_then (select_spec (wall_r_value i) (wall_width i))
     (\<lambda>wp. and_then (select_spec (cat_r_value i) (cat_width i))
     (\<lambda>cp. if run_estimate i
           then and_then (estimate i wp cp) (\<lambda>rep. Inr (Some rep))
           else Inr None))"

subsection \<open>Example inputs\<close>

text \<open>
  A room of 10 ft by 10 ft, 8 ft high, with its ceiling and no opening, and a form left at
  its default factors with some unit costs and a labour rate filled in.
\<close>

definition example_room :: room_input where
  "example_room =
     \<lparr> room_name = ''Room 1'', room_length = 10, room_width = 10, room_height = 8,
       include_ceiling = True, windows = [], doors = [] \<rparr>"

definition example_drywall :: drywall_inputs where
  "example_drywall =
     \<lparr> include_waste = True, waste_pct_field = 10,
       mud_gal_per_1000 = 9.5, mud_pail_gal = 4.5, tape_sqft_per_roll = 1200,
       screws_per_sqft = 1.25, screws_per_box = 1000,
       corner_bead_lf_per_1000 = 50, corner_bead_piece_len_ft = 8,
       sheet_size = Sheet_4x8,
       include_resilient_channel = False, rc_spacing_in = 16, rc_piece_length_ft = 12,
       cost_per_sheet = 15, cost_mud_pail = 20, cost_tape_roll = 5, cost_screws_box = 30,
       cost_corner_bead_piece = 4, cost_rc_piece = 0,
       pot_light_count = 0, pot_light_cost = 0,
       labour_rate_sqft = 1.5, labour_rate_sqm = 0, tax_pct = 13,
       labour_high_part_flat = 0, labour_high_part_rate_sqft = 0,
       rooms = [example_room],
       high_parts = [(11, 70), (11, 50)],
       session_state = Map.empty \<rparr>"

text \<open>
  An insulation form: 40 ft of wall 8 ft high in R12 batts of 15 in, one cathedral section
  of length 10, base width 8 and rise 3 in R20 batts of 23 in, and 500 square feet of
  blown-in ceiling less 100 vaulted.
\<close>

definition example_insulation :: insulation_inputs where
  "example_insulation =
     \<lparr> wall_r_value = ''R12'', wall_width = 15, wall_price_per_bag = 50,
       cat_r_value = ''R20'', cat_width = 23, cat_price_per_bag = 60,
       ceiling_cov_per_bag = 40, ceiling_price_per_bag = 30,
       wall_linear_feet = 40, wall_height = 8, wall_stud_spacing = 16,
       cat_sections = [(10, 8, 3)], cat_spacing_in = 16,
       blow_sq = 500, vault_sq = 100,
       wall_labour_rate = 1,
       ceiling_hourly = 40, ceiling_hours = 5, ceiling_flat_srchg = 100,
       cathedral_hourly = 50, cathedral_hours = 2, cathedral_flat = 25,
       run_estimate = True \<rparr>"

section \<open>Properties of the drywall estimator\<close>

subsection \<open>Sequencing and guarded divisions\<close>

lemma and_then_Inr [simp]: "and_then (Inr v) f = f v"
  by (simp add: and_then_def)

lemma and_then_Inl [simp]: "and_then (Inl e) f = Inl e"
  by (simp add: and_then_def)

text \<open>The guard of a quantity keeps its division from raising.\<close>

lemma ceil_div_pos:
  "(if 0 < r then and_then (truediv x r) (\<lambda>q. Inr \<lceil>q\<rceil>) else Inr 0) =
     Inr (if 0 < r then \<lceil>x / r\<rceil> else 0)"
  by (simp add: truediv_def)

lemma ceil_div_pos_int:
  "(if 0 < n then and_then (truediv x (of_int n)) (\<lambda>q. Inr \<lceil>q\<rceil>) else Inr 0) =
     Inr (if 0 < n then \<lceil>x / of_int n\<rceil> else 0)"
  by (simp add: truediv_def)

lemma ceil_div_nonzero:
  "(if r \<noteq> 0 then and_then (truediv x r) (\<lambda>q. Inr \<lceil>q\<rceil>) else Inr 0) =
     Inr (if r \<noteq> 0 then \<lceil>x / r\<rceil> else 0)"
  by (simp add: truediv_def)

subsection \<open>Areas of a room\<close>

lemmas room_defs = room_areas_def perimeter_def wall_area_net_def wall_area_gross_def
  openings_area_def ceiling_area_of_def total_area_of_def total_with_waste_of_def
  waste_multiplier_def

text \<open>The example of the specification: 40 ft around, 320 and 100 square feet, 420 and 462 in total.\<close>

lemma example_room_areas:
  "room_areas 10 example_room =
     \<lparr> room = ''Room 1'', length_ft = 10, width_ft = 10, height_ft = 8, perimeter_ft = 40,
       wall_area_net_ft2 = 320, ceiling_area_ft2 = 100, total_area_ft2 = 420,
       total_with_waste_ft2 = 462 \<rparr>"
  by (simp add: example_room_def room_defs)

lemma openings_area_nonneg:
  assumes "\<forall>(w, h) \<in> set (windows r @ doors r). 0 \<le> w \<and> 0 \<le> h"
  shows "0 \<le> openings_area r"
proof -
  have "0 \<le> sum_list (map (\<lambda>(w, h). w * h) xs)" if "\<forall>(w, h) \<in> set xs. 0 \<le> w \<and> 0 \<le> h"
    for xs :: "(real \<times> real) list"
    using that by (intro sum_list_nonneg) auto
  from this [of "windows r"] this [of "doors r"] assms show ?thesis
    by (simp add: openings_area_def ball_Un)
qed

text \<open>
  C2, as stated, fails: a room of length 0 and width 10 under an 8 ft wall still has a
  perimeter of 20 ft, so 160 square feet of wall and 176 square feet with 10 percent of waste.
\<close>

theorem zero_length_room_counterexample:
  "\<not> ((room_length (example_room\<lparr>room_length := 0\<rparr>) = 0
        \<or> room_width (example_room\<lparr>room_length := 0\<rparr>) = 0)
      \<longrightarrow> total_area_ft2 (room_areas 10 (example_room\<lparr>room_length := 0\<rparr>)) = 0
        \<and> total_with_waste_ft2 (room_areas 10 (example_room\<lparr>room_length := 0\<rparr>)) = 0)"
  by (simp add: example_room_def room_defs)

lemma zero_length_room_areas:
  "total_area_ft2 (room_areas 10 (example_room\<lparr>room_length := 0\<rparr>)) = 160
   \<and> total_with_waste_ft2 (room_areas 10 (example_room\<lparr>room_length := 0\<rparr>)) = 176"
  by (simp add: example_room_def room_defs)

text \<open>
  C2, amended. A room whose length or width is 0 has total area and total area with waste
  0 when its gross wall area is at most the area of its openings; this is so for every
  room whose length and width are both 0 and whose openings have no negative side.
\<close>

theorem zero_footprint_room_totals:
  "((room_length r = 0 \<or> room_width r = 0) \<and> wall_area_gross r \<le> openings_area r
      \<longrightarrow> total_area_ft2 (room_areas wp r) = 0 \<and> total_with_waste_ft2 (room_areas wp r) = 0)
   \<and> (room_length r = 0 \<and> room_width r = 0
       \<and> (\<forall>(w, h) \<in> set (windows r @ doors r). 0 \<le> w \<and> 0 \<le> h)
      \<longrightarrow> total_area_ft2 (room_areas wp r) = 0 \<and> total_with_waste_ft2 (room_areas wp r) = 0)"
proof (intro conjI impI)
  assume a: "(room_length r = 0 \<or> room_width r = 0) \<and> wall_area_gross r \<le> openings_area r"
  then show "total_area_ft2 (room_areas wp r) = 0"
    by (auto simp: room_areas_def total_area_of_def wall_area_net_def ceiling_area_of_def)
  with a show "total_with_waste_ft2 (room_areas wp r) = 0"
    by (simp add: room_areas_def total_with_waste_of_def)
next
  assume b: "room_length r = 0 \<and> room_width r = 0
    \<and> (\<forall>(w, h) \<in> set (windows r @ doors r). 0 \<le> w \<and> 0 \<le> h)"
  then have "0 \<le> openings_area r"
    using openings_area_nonneg by blast
  with b show t: "total_area_ft2 (room_areas wp r) = 0"
    by (simp add: room_areas_def total_area_of_def wall_area_net_def ceiling_area_of_def
        wall_area_gross_def perimeter_def)
  then show "total_with_waste_ft2 (room_areas wp r) = 0"
    by (simp add: room_areas_def total_with_waste_of_def)
qed

theorem zero_footprint_room_totals_witness:
  "total_area_ft2
     (room_areas 10 (example_room\<lparr>room_length := 0, room_width := 0, windows := [(3, 4)]\<rparr>)) = 0
   \<and> total_with_waste_ft2
       (room_areas 10 (example_room\<lparr>room_length := 0, room_width := 0, windows := [(3, 4)]\<rparr>)) = 0"
  using zero_footprint_room_totals
    [of "example_room\<lparr>room_length := 0, room_width := 0, windows := [(3, 4)]\<rparr>" 10]
  by (simp add: example_room_def wall_area_gross_def perimeter_def openings_area_def)

subsection \<open>Material takeoff\<close>

lemma material_takeoff_eq:
  "material_takeoff i tw =
     Inr \<lparr> sheets = (if 0 < sheet_area (sheet_size i) then \<lceil>tw / sheet_area (sheet_size i)\<rceil> else 0),
           mud_gal = (tw / 1000) * mud_gal_per_1000 i,
           mud_pails = (if 0 < mud_pail_gal i
                        then \<lceil>((tw / 1000) * mud_gal_per_1000 i) / mud_pail_gal i\<rceil> else 0),
           tape_rolls = (if 0 < tape_sqft_per_roll i then \<lceil>tw / tape_sqft_per_roll i\<rceil> else 0),
           screws_qty = \<lceil>tw * screws_per_sqft i\<rceil>,
           screws_boxes =
             (if 0 < screws_per_box i
              then \<lceil>real_of_int \<lceil>tw * screws_per_sqft i\<rceil> / real_of_int (screws_per_box i)\<rceil>
              else 0),
           corner_bead_lf = (tw / 1000) * corner_bead_lf_per_1000 i,
           corner_bead_pcs =
             (if 0 < corner_bead_piece_len_ft i
              then \<lceil>((tw / 1000) * corner_bead_lf_per_1000 i) / corner_bead_piece_len_ft i\<rceil>
              else 0) \<rparr>"
  unfolding material_takeoff_def Let_def ceil_div_pos ceil_div_pos_int and_then_Inr
  by (rule refl)




subsection \<open>High parts\<close>

lemma high_parts_loop_eq:
  "high_parts_loop hps (a, n) =
     (a + sum_list (map snd (filter (\<lambda>(h, ar). 10 < h \<and> 64 < ar) hps)),
      n + int (length (filter (\<lambda>(h, ar). 10 < h \<and> 64 < ar) hps)))"
proof (induction hps arbitrary: a n)
  case Nil
  show ?case by simp
next
  case (Cons hp hps)
  obtain h ar where hp: "hp = (h, ar)" by (cases hp)
  show ?case
  proof (cases "10 < h \<and> 64 < ar")
    case True
    then have "high_part_step (a, n) hp = (a + ar, n + 1)"
      by (simp add: hp high_part_step_def)
    with True show ?thesis by (simp add: Cons.IH hp)
  next
    case False
    then have "high_part_step (a, n) hp = (a, n)"
      by (auto simp: hp high_part_step_def)
    with False show ?thesis by (auto simp: Cons.IH hp)
  qed
qed

text \<open>
  C8. A high part changes the qualifying area, and the qualifying count, if and only if
  its height is above 10 ft and its area above 64 square feet; it then adds its area and 1.
  Over a list of parts the loop leaves the sum of the areas and the number of the parts
  that pass both tests. A part of height 11 and area 70 gives (70, 1); a part of height 11
  and area 50 leaves (0, 0).
\<close>

theorem high_part_qualifies_iff:
  "(fst (high_part_step (a, n) (hp_height, hp_area)) \<noteq> a \<longleftrightarrow> 10 < hp_height \<and> 64 < hp_area)
   \<and> (snd (high_part_step (a, n) (hp_height, hp_area)) \<noteq> n \<longleftrightarrow> 10 < hp_height \<and> 64 < hp_area)
   \<and> high_part_step (a, n) (hp_height, hp_area) =
       (if 10 < hp_height \<and> 64 < hp_area then (a + hp_area, n + 1) else (a, n))
   \<and> high_parts_loop hps (0, 0) =
       (sum_list (map snd (filter (\<lambda>(h, ar). 10 < h \<and> 64 < ar) hps)),
        int (length (filter (\<lambda>(h, ar). 10 < h \<and> 64 < ar) hps)))
   \<and> high_parts_loop [(11, 70)] (0, 0) = (70, 1)
   \<and> high_parts_loop [(11, 50)] (0, 0) = (0, 0)"
  by (simp add: high_parts_loop_eq) (simp add: high_part_step_def)

theorem high_part_qualifies_iff_witness:
  "high_part_step (0, 0) (11, 70) = (70, 1) \<and> high_part_step (0, 0) (11, 50) = (0, 0)
   \<and> high_part_step (0, 0) (10, 70) = (0, 0) \<and> high_part_step (0, 0) (11, 64) = (0, 0)
   \<and> high_parts_loop [(11, 70), (11, 50), (12, 100)] (0, 0) = (170, 2)"
  using high_part_qualifies_iff [of 0 0 11 70 "[(11, 70), (11, 50), (12, 100)]"]
    high_part_qualifies_iff [of 0 0 11 50 "[]"]
    high_part_qualifies_iff [of 0 0 10 70 "[]"]
    high_part_qualifies_iff [of 0 0 11 64 "[]"]
  by (simp add: high_part_step_def)

subsection \<open>The whole run\<close>

lemma rc_step_returns:
  assumes "rc_spacing_in i \<noteq> 0 \<or> \<not> include_resilient_channel i"
  shows "\<exists>rc'. rc_step i r rc = Inr rc'"
  using assms by (auto simp: rc_step_def truediv_def)

lemma rooms_loop_returns:
  assumes "rc_spacing_in i \<noteq> 0 \<or> \<not> include_resilient_channel i"
  shows "\<exists>rc'. rooms_loop i rs (acc, rc) = Inr (acc @ map (room_areas (waste_pct i)) rs, rc')"
proof (induction rs arbitrary: acc rc)
  case Nil
  show ?case by simp
next
  case (Cons r rs)
  from rc_step_returns [OF assms] obtain rc1 where "rc_step i r rc = Inr rc1" by blast
  moreover from Cons.IH [of "acc @ [room_areas (waste_pct i) r]" rc1]
  obtain rc2 where
    "rooms_loop i rs (acc @ [room_areas (waste_pct i) r], rc1) =
       Inr ((acc @ [room_areas (waste_pct i) r]) @ map (room_areas (waste_pct i)) rs, rc2)"
    by blast
  ultimately show ?case by simp
qed

lemma run_drywall_estimator_eq:
  assumes "rc_spacing_in i \<noteq> 0 \<or> \<not> include_resilient_channel i"
  shows "run_drywall_estimator i =
           summary_and_takeoff i (map (room_areas (waste_pct i)) (rooms i))
             (high_parts_loop (high_parts i) (0, 0))"
proof -
  from rooms_loop_returns [OF assms, of "rooms i" "[]" 0] obtain rc' where
    "rooms_loop i (rooms i) ([], 0) = Inr (map (room_areas (waste_pct i)) (rooms i), rc')"
    by auto
  then show ?thesis by (simp add: run_drywall_estimator_def)
qed

lemma summary_and_takeoff_returns:
  assumes "rows \<noteq> []"
  shows "\<exists>t. material_takeoff i (sum_list (map total_with_waste_ft2 rows)) = Inr t
     \<and> summary_and_takeoff i rows (a, n) =
         Inr (Some
           \<lparr> df = df_of rows,
             total_ft2 = sum_list (map total_area_ft2 rows),
             total_m2 = sum_list (map total_area_ft2 rows) * FT2_TO_M2,
             total_waste_ft2 = sum_list (map total_with_waste_ft2 rows),
             total_waste_m2 = sum_list (map total_with_waste_ft2 rows) * FT2_TO_M2,
             materials = t,
             prices = costs_and_pricing i t (sum_list (map total_with_waste_ft2 rows)) a n,
             qualifying_hp_count = n,
             qualifying_hp_area_ft2 = a \<rparr>)"
  using assms by (simp add: summary_and_takeoff_def Let_def material_takeoff_eq)

lemma run_drywall_rows:
  assumes "rooms i \<noteq> []" and "rc_spacing_in i \<noteq> 0"
  shows "\<exists>rep. run_drywall_estimator i = Inr (Some rep)
     \<and> map row (df rep) = map (room_areas (waste_pct i)) (rooms i)"
proof -
  let ?rows = "map (room_areas (waste_pct i)) (rooms i)"
  obtain a n where hp: "high_parts_loop (high_parts i) (0, 0) = (a, n)"
    by (cases "high_parts_loop (high_parts i) (0, 0)")
  from assms(1) have "?rows \<noteq> []" by simp
  from summary_and_takeoff_returns [OF this, of i a n] obtain rep where
    "summary_and_takeoff i ?rows (a, n) = Inr (Some rep)" and "df rep = df_of ?rows"
    by fastforce
  with assms(2) hp show ?thesis
    by (intro exI [of _ rep]) (simp add: run_drywall_estimator_eq df_of_def comp_def)
qed

text \<open>
  C1. For every room, the net wall area of its row is the perimeter times the height less
  the areas of its windows and doors, clamped at 0 from below: it is never negative, and
  it is 0 whenever the openings are at least as large as the gross wall area. A run with
  at least one room returns a report whose rows are these rows, one per room in order, so
  no row of a report has a negative net wall area.
\<close>

theorem wall_area_net_clamped:
  "wall_area_net_ft2 (room_areas wp r) =
     max (perimeter_ft (room_areas wp r) * room_height r
          - (sum_list (map (\<lambda>(w, h). w * h) (windows r))
             + sum_list (map (\<lambda>(w, h). w * h) (doors r)))) 0
   \<and> perimeter_ft (room_areas wp r) = 2 * (room_length r + room_width r)
   \<and> 0 \<le> wall_area_net_ft2 (room_areas wp r)
   \<and> (2 * (room_length r + room_width r) * room_height r
         \<le> sum_list (map (\<lambda>(w, h). w * h) (windows r))
           + sum_list (map (\<lambda>(w, h). w * h) (doors r))
       \<longrightarrow> wall_area_net_ft2 (room_areas wp r) = 0)
   \<and> (rooms i \<noteq> [] \<and> rc_spacing_in i \<noteq> 0 \<longrightarrow>
        (\<exists>rep. run_drywall_estimator i = Inr (Some rep)
           \<and> map row (df rep) = map (room_areas (waste_pct i)) (rooms i)
           \<and> (\<forall>d \<in> set (df rep). 0 \<le> wall_area_net_ft2 (row d))))"
proof -
  have per_room: "wall_area_net_ft2 (room_areas wp r) =
     max (perimeter_ft (room_areas wp r) * room_height r
          - (sum_list (map (\<lambda>(w, h). w * h) (windows r))
             + sum_list (map (\<lambda>(w, h). w * h) (doors r)))) 0
   \<and> perimeter_ft (room_areas wp r) = 2 * (room_length r + room_width r)
   \<and> 0 \<le> wall_area_net_ft2 (room_areas wp r)
   \<and> (2 * (room_length r + room_width r) * room_height r
         \<le> sum_list (map (\<lambda>(w, h). w * h) (windows r))
           + sum_list (map (\<lambda>(w, h). w * h) (doors r))
       \<longrightarrow> wall_area_net_ft2 (room_areas wp r) = 0)"
    by (simp add: room_defs)
  have nonneg: "0 \<le> wall_area_net_ft2 (room_areas w x)" for w x
    by (simp add: room_areas_def wall_area_net_def)
  have "\<exists>rep. run_drywall_estimator i = Inr (Some rep)
           \<and> map row (df rep) = map (room_areas (waste_pct i)) (rooms i)
           \<and> (\<forall>d \<in> set (df rep). 0 \<le> wall_area_net_ft2 (row d))"
    if "rooms i \<noteq> [] \<and> rc_spacing_in i \<noteq> 0"
  proof -
    from that run_drywall_rows obtain rep where
      run: "run_drywall_estimator i = Inr (Some rep)"
      and rows: "map row (df rep) = map (room_areas (waste_pct i)) (rooms i)"
      by blast
    have "0 \<le> wall_area_net_ft2 (row d)" if "d \<in> set (df rep)" for d
    proof -
      from that have "row d \<in> set (map row (df rep))" by simp
      then obtain x where "row d = room_areas (waste_pct i) x"
        unfolding rows by auto
      then show ?thesis by (simp add: nonneg)
    qed
    with run rows show ?thesis by blast
  qed
  with per_room show ?thesis by blast
qed

theorem wall_area_net_clamped_witness:
  "wall_area_net_ft2 (room_areas 10 (example_room\<lparr>windows := [(30, 8)], doors := [(10, 8)]\<rparr>)) = 0
   \<and> wall_area_net_ft2
        (room_areas 10 (example_room\<lparr>windows := [(3, 4)], doors := [(2.5, 80 / 12)]\<rparr>))
       = 320 - 12 - 50 / 3
   \<and> (\<exists>rep. run_drywall_estimator example_drywall = Inr (Some rep)
         \<and> map (wall_area_net_ft2 \<circ> row) (df rep) = [320])"
proof -
  from wall_area_net_clamped
    [of 10 "example_room\<lparr>windows := [(30, 8)], doors := [(10, 8)]\<rparr>" example_drywall]
  have 1: "wall_area_net_ft2
      (room_areas 10 (example_room\<lparr>windows := [(30, 8)], doors := [(10, 8)]\<rparr>)) = 0"
    by (simp add: example_room_def)
  from wall_area_net_clamped
    [of 10 "example_room\<lparr>windows := [(3, 4)], doors := [(2.5, 80 / 12)]\<rparr>" example_drywall]
  obtain rep where 2: "wall_area_net_ft2
        (room_areas 10 (example_room\<lparr>windows := [(3, 4)], doors := [(2.5, 80 / 12)]\<rparr>))
       = 320 - 12 - 50 / 3"
    and run: "run_drywall_estimator example_drywall = Inr (Some rep)"
    and rows: "map row (df rep) = map (room_areas (waste_pct example_drywall)) (rooms example_drywall)"
    by (auto simp: example_room_def example_drywall_def)
  have "map (wall_area_net_ft2 \<circ> row) (df rep) = map wall_area_net_ft2 (map row (df rep))"
    by simp
  also have "\<dots> = [320]"
    unfolding rows by (simp add: example_drywall_def waste_pct_def example_room_areas)
  finally have 3: "map (wall_area_net_ft2 \<circ> row) (df rep) = [320]" .
  with run have "\<exists>rep. run_drywall_estimator example_drywall = Inr (Some rep)
         \<and> map (wall_area_net_ft2 \<circ> row) (df rep) = [320]"
    by (intro exI [of _ rep] conjI)
  with 1 2 show ?thesis by (intro conjI)
qed

text \<open>The example form: 420 square feet, 462 with waste, 15 sheets.\<close>

lemma example_drywall_run:
  "\<exists>rep. run_drywall_estimator example_drywall = Inr (Some rep)
     \<and> total_ft2 rep = 420 \<and> total_waste_ft2 rep = 462
     \<and> sheets (materials rep) = 15 \<and> mud_pails (materials rep) = 1
     \<and> screws_qty (materials rep) = 578 \<and> corner_bead_pcs (materials rep) = 3
     \<and> qualifying_hp_count rep = 1 \<and> qualifying_hp_area_ft2 rep = 70
     \<and> material_subtotal (prices rep) = 292 \<and> labour_area_cost (prices rep) = 798
     \<and> subtotal_no_tax (prices rep) = 1090 \<and> total_with_tax (prices rep) = 1231.7"
  by (simp add: run_drywall_estimator_def example_drywall_def rc_step_def waste_pct_def
      room_defs example_room_def high_part_step_def summary_and_takeoff_def
      material_takeoff_eq sheet_area_def costs_and_pricing_def session_or_local_def Let_def)

lemma labour_area_cost_eq:
  "labour_area_cost (costs_and_pricing i t tw a n) =
     (if 0 < labour_rate_sqft i then (tw + a) * labour_rate_sqft i
      else if 0 < labour_rate_sqm i then (tw + a) * FT2_TO_M2 * labour_rate_sqm i
      else 0)"
  by (simp add: costs_and_pricing_def Let_def)

lemma charge_area_ft2_eq: "charge_area_ft2 (costs_and_pricing i t tw a n) = tw + a"
  by (simp add: costs_and_pricing_def Let_def)

text \<open>
  C7. A run with at least one room returns a report. Its area labour cost is the charge
  area, the total area with waste plus the qualifying high-part area, times the rate per
  square foot when that rate is positive; with that rate 0 and a positive rate per square
  metre it is the charge area times 0.09290304 times the rate per square metre; with both
  rates 0 it is 0. The resilient-channel spacing comes from a select box of 16 and 24 and
  is taken as non-zero.
\<close>

theorem area_labour_cost:
  assumes "rooms i \<noteq> []" and "rc_spacing_in i \<noteq> 0"
  shows "\<exists>rep. run_drywall_estimator i = Inr (Some rep)
     \<and> total_waste_ft2 rep = sum_list (map (total_with_waste_of (waste_pct i)) (rooms i))
     \<and> qualifying_hp_area_ft2 rep = fst (high_parts_loop (high_parts i) (0, 0))
     \<and> (0 < labour_rate_sqft i \<longrightarrow>
          labour_area_cost (prices rep)
            = (total_waste_ft2 rep + qualifying_hp_area_ft2 rep) * labour_rate_sqft i)
     \<and> (labour_rate_sqft i = 0 \<and> 0 < labour_rate_sqm i \<longrightarrow>
          labour_area_cost (prices rep)
            = ((total_waste_ft2 rep + qualifying_hp_area_ft2 rep) * 0.09290304) * labour_rate_sqm i)
     \<and> (labour_rate_sqft i = 0 \<and> labour_rate_sqm i = 0 \<longrightarrow> labour_area_cost (prices rep) = 0)"
proof -
  let ?rows = "map (room_areas (waste_pct i)) (rooms i)"
  obtain a n where hp: "high_parts_loop (high_parts i) (0, 0) = (a, n)"
    by (cases "high_parts_loop (high_parts i) (0, 0)")
  from assms(1) have "?rows \<noteq> []" by simp
  from summary_and_takeoff_returns [OF this, of i a n] obtain rep where
    rep: "summary_and_takeoff i ?rows (a, n) = Inr (Some rep)"
    and tw: "total_waste_ft2 rep = sum_list (map total_with_waste_ft2 ?rows)"
    and qa: "qualifying_hp_area_ft2 rep = a"
    and pr: "\<exists>t. prices rep = costs_and_pricing i t (sum_list (map total_with_waste_ft2 ?rows)) a n"
    by fastforce
  from assms(2) have run: "run_drywall_estimator i = Inr (Some rep)"
    by (simp add: run_drywall_estimator_eq hp rep)
  have tw': "total_waste_ft2 rep = sum_list (map (total_with_waste_of (waste_pct i)) (rooms i))"
    by (simp add: tw room_areas_def comp_def)
  from pr obtain t where
    "prices rep = costs_and_pricing i t (total_waste_ft2 rep) (qualifying_hp_area_ft2 rep) n"
    using tw qa by auto
  then have "labour_area_cost (prices rep) =
     (if 0 < labour_rate_sqft i
      then (total_waste_ft2 rep + qualifying_hp_area_ft2 rep) * labour_rate_sqft i
      else if 0 < labour_rate_sqm i
      then (total_waste_ft2 rep + qualifying_hp_area_ft2 rep) * FT2_TO_M2 * labour_rate_sqm i
      else 0)"
    by (simp only: labour_area_cost_eq)
  with run tw' qa hp show ?thesis
    by (intro exI [of _ rep]) (simp add: FT2_TO_M2_def)
qed


lemmas example_drywall_simps = example_drywall_def example_room_def waste_pct_def
  high_part_step_def total_with_waste_of_def total_area_of_def wall_area_net_def
  wall_area_gross_def perimeter_def openings_area_def ceiling_area_of_def waste_multiplier_def

theorem area_labour_cost_witness:
  "(\<exists>rep. run_drywall_estimator example_drywall = Inr (Some rep)
       \<and> labour_area_cost (prices rep) = 798)
   \<and> (\<exists>rep. run_drywall_estimator (example_drywall\<lparr>labour_rate_sqft := 0, labour_rate_sqm := 20\<rparr>)
              = Inr (Some rep)
       \<and> labour_area_cost (prices rep) = 532 * 0.09290304 * 20)
   \<and> (\<exists>rep. run_drywall_estimator (example_drywall\<lparr>labour_rate_sqft := 0\<rparr>) = Inr (Some rep)
       \<and> labour_area_cost (prices rep) = 0)"
proof -
  from area_labour_cost [of example_drywall]
  have 1: "\<exists>rep. run_drywall_estimator example_drywall = Inr (Some rep)
       \<and> labour_area_cost (prices rep) = 798"
    by (auto simp: example_drywall_simps)
  from area_labour_cost [of "example_drywall\<lparr>labour_rate_sqft := 0, labour_rate_sqm := 20\<rparr>"]
  have 2: "\<exists>rep. run_drywall_estimator (example_drywall\<lparr>labour_rate_sqft := 0, labour_rate_sqm := 20\<rparr>)
              = Inr (Some rep)
       \<and> labour_area_cost (prices rep) = 532 * 0.09290304 * 20"
    by (auto simp: example_drywall_simps)
  from area_labour_cost [of "example_drywall\<lparr>labour_rate_sqft := 0\<rparr>"]
  have 3: "\<exists>rep. run_drywall_estimator (example_drywall\<lparr>labour_rate_sqft := 0\<rparr>) = Inr (Some rep)
       \<and> labour_area_cost (prices rep) = 0"
    by (auto simp: example_drywall_simps)
  from 1 2 3 show ?thesis by blast
qed

subsection \<open>Resilient channel\<close>

text \<open>
  A spacing of 0, which the select box does not offer, would make the loop raise once the
  channel is enabled.
\<close>

lemma rc_spacing_zero_raises:
  "run_drywall_estimator (example_drywall\<lparr>include_resilient_channel := True, rc_spacing_in := 0\<rparr>)
     = Inl ZeroDivisionError"
  by (simp add: run_drywall_estimator_def rc_step_def truediv_def example_drywall_def
      example_room_def)

lemma costs_and_pricing_rc:
  "costs_and_pricing
     (i\<lparr>include_resilient_channel := inc, rc_spacing_in := sp, rc_piece_length_ft := len,
        cost_rc_piece := c\<rparr>) t tw a n = costs_and_pricing i t tw a n"
  by (simp add: costs_and_pricing_def Let_def cong: if_cong)

lemma material_takeoff_rc:
  "material_takeoff
     (i\<lparr>include_resilient_channel := inc, rc_spacing_in := sp, rc_piece_length_ft := len,
        cost_rc_piece := c\<rparr>) tw = material_takeoff i tw"
  by (simp add: material_takeoff_eq)

lemma summary_and_takeoff_rc:
  "summary_and_takeoff
     (i\<lparr>include_resilient_channel := inc, rc_spacing_in := sp, rc_piece_length_ft := len,
        cost_rc_piece := c\<rparr>) rows hp = summary_and_takeoff i rows hp"
  unfolding summary_and_takeoff_def costs_and_pricing_rc material_takeoff_rc
  by (rule refl)

text \<open>
  C9. Two runs whose inputs differ only in the resilient-channel settings (the include
  flag, the spacing, the piece length and the cost per piece) give the same result: the
  same rows, quantities, costs and totals. The spacing comes from a select box of 16 and
  24 and is taken as non-zero in both runs; the run then returns.
\<close>

theorem resilient_channel_noninterference:
  assumes "rc_spacing_in i \<noteq> 0" and "sp \<noteq> 0"
  shows "run_drywall_estimator
           (i\<lparr>include_resilient_channel := inc, rc_spacing_in := sp, rc_piece_length_ft := len,
              cost_rc_piece := c\<rparr>) = run_drywall_estimator i
         \<and> (\<exists>out. run_drywall_estimator i = Inr out)"
proof -
  let ?i' = "i\<lparr>include_resilient_channel := inc, rc_spacing_in := sp, rc_piece_length_ft := len,
              cost_rc_piece := c\<rparr>"
  from assms(2) have "rc_spacing_in ?i' \<noteq> 0 \<or> \<not> include_resilient_channel ?i'" by simp
  then have "run_drywall_estimator ?i' =
      summary_and_takeoff ?i' (map (room_areas (waste_pct ?i')) (rooms ?i'))
        (high_parts_loop (high_parts ?i') (0, 0))"
    by (rule run_drywall_estimator_eq)
  also have "\<dots> = summary_and_takeoff i (map (room_areas (waste_pct i)) (rooms i))
        (high_parts_loop (high_parts i) (0, 0))"
    by (simp add: summary_and_takeoff_rc waste_pct_def)
  also from assms(1) have "\<dots> = run_drywall_estimator i"
    by (simp add: run_drywall_estimator_eq)
  finally have eq: "run_drywall_estimator ?i' = run_drywall_estimator i" .
  have "\<exists>out. summary_and_takeoff i rows hp = Inr out" for rows hp
    by (cases hp) (simp add: summary_and_takeoff_def Let_def material_takeoff_eq)
  with assms(1) have "\<exists>out. run_drywall_estimator i = Inr out"
    by (simp add: run_drywall_estimator_eq)
  with eq show ?thesis by simp
qed

theorem resilient_channel_noninterference_witness:
  "run_drywall_estimator
     (example_drywall\<lparr>include_resilient_channel := True, rc_spacing_in := 24,
        rc_piece_length_ft := 8, cost_rc_piece := 3\<rparr>) = run_drywall_estimator example_drywall
   \<and> (\<exists>out. run_drywall_estimator example_drywall = Inr out)"
  using resilient_channel_noninterference
      [where i = example_drywall and sp = 24 and inc = True and len = 8 and c = 3]
  by (simp add: example_drywall_def)

section \<open>Properties of the insulation estimator\<close>

subsection \<open>Cathedral sections and the estimate\<close>

lemma slope_eq: "slope bw rise = sqrt ((bw / 2)\<^sup>2 + rise\<^sup>2)"
proof -
  have "0 \<le> (bw / 2)\<^sup>2 + rise\<^sup>2" by simp
  then show ?thesis by (simp only: slope_def max_absorb1)
qed

lemma ceil_div_spacing:
  "(if n \<noteq> 0 then and_then (truediv x (of_int n / 12)) (\<lambda>q. Inr \<lceil>q\<rceil>) else Inr 0) =
     Inr (if n \<noteq> 0 then \<lceil>x / (of_int n / 12)\<rceil> else 0)"
  by (simp add: truediv_def)


lemma cat_batts_of_eq:
  "cat_batts_of sp cs =
     Inr (map (\<lambda>(len, bw, rise). if sp \<noteq> 0 then \<lceil>bw / (real_of_int sp / 12)\<rceil> else 0) cs)"
  by (induction sp cs rule: cat_batts_of.induct) (simp_all add: truediv_def)

lemma estimate_eq:
  fixes i :: insulation_inputs and wp cp :: material_spec
  defines "wa \<equiv> wall_linear_feet i * wall_height i"
    and "ca \<equiv> cat_area_loop (cat_sections i) 0"
    and "bc \<equiv> (if 0 < coverage_per_bag cp then coverage_per_bag cp * 1.10 else 0)"
  defines "wb \<equiv> (if 0 < coverage_per_bag wp then \<lceil>wa / coverage_per_bag wp\<rceil> else 0)"
    and "cb \<equiv> (if 0 < bc then \<lceil>ca / bc\<rceil> else 0)"
    and "cl \<equiv> (if ceiling_cov_per_bag i \<noteq> 0
                then \<lceil>real_of_int (max (blow_sq i - vault_sq i) 0) / ceiling_cov_per_bag i\<rceil> else 0)"
  shows "estimate i wp cp =
     Inr \<lparr> wall_area = wa,
           wall_bags = wb,
           wall_pieces = wb * pieces_per_bag wp,
           wall_cost = of_int wb * wall_price_per_bag i,
           total_cat_area = ca,
           cat_bags = cb,
           cat_pieces = cb * pieces_per_bag cp,
           cat_cost = of_int cb * cat_price_per_bag i,
           ceiling_area = max (blow_sq i - vault_sq i) 0,
           ceiling_bags = cl,
           ceiling_mat_cost = of_int cl * ceiling_price_per_bag i,
           wall_batts = (if wall_stud_spacing i \<noteq> 0
                         then \<lceil>wall_linear_feet i / (real_of_int (wall_stud_spacing i) / 12)\<rceil> else 0),
           cat_batts = map (\<lambda>(len, bw, rise).
                              if cat_spacing_in i \<noteq> 0
                              then \<lceil>bw / (real_of_int (cat_spacing_in i) / 12)\<rceil> else 0)
                         (cat_sections i),
           wall_lab = wa * wall_labour_rate i,
           area_lab = (wa + ca) * wall_labour_rate i,
           ceil_lab = ceiling_hourly i * ceiling_hours i + ceiling_flat_srchg i,
           cat_surch = ((cathedral_hourly i * cathedral_hours i) + cathedral_flat i) * of_int (num_cat i),
           mat_total = of_int wb * wall_price_per_bag i + of_int cb * cat_price_per_bag i
                         + of_int cl * ceiling_price_per_bag i,
           lab_total = wa * wall_labour_rate i + (wa + ca) * wall_labour_rate i
                         + (ceiling_hourly i * ceiling_hours i + ceiling_flat_srchg i)
                         + ((cathedral_hourly i * cathedral_hours i) + cathedral_flat i) * of_int (num_cat i),
           total_tax = (of_int wb * wall_price_per_bag i + of_int cb * cat_price_per_bag i
                         + of_int cl * ceiling_price_per_bag i
                        + (wa * wall_labour_rate i + (wa + ca) * wall_labour_rate i
                         + (ceiling_hourly i * ceiling_hours i + ceiling_flat_srchg i)
                         + ((cathedral_hourly i * cathedral_hours i) + cathedral_flat i) * of_int (num_cat i))) * 1.05,
           total_buf = (of_int wb * wall_price_per_bag i + of_int cb * cat_price_per_bag i
                         + of_int cl * ceiling_price_per_bag i
                        + (wa * wall_labour_rate i + (wa + ca) * wall_labour_rate i
                         + (ceiling_hourly i * ceiling_hours i + ceiling_flat_srchg i)
                         + ((cathedral_hourly i * cathedral_hours i) + cathedral_flat i) * of_int (num_cat i))) * 1.05 * 1.10 \<rparr>"
  unfolding estimate_def Let_def ceil_div_pos ceil_div_nonzero ceil_div_spacing and_then_Inr
    cat_batts_of_eq
    wa_def ca_def bc_def wb_def cb_def cl_def
  by (rule refl)


subsection \<open>Selected specifications\<close>




lemma example_select_spec:
  "select_spec ''R12'' 15 = Inr \<lparr>coverage_per_bag = 100, pieces_per_bag = 20\<rparr>"
  "select_spec ''R20'' 23 = Inr \<lparr>coverage_per_bag = 122.7, pieces_per_bag = 16\<rparr>"
  by (simp_all add: select_spec_def getitem_def MATERIAL_SPECS_def)


text \<open>
  The example form. The wall is the example of the specification: 320 square feet at 100
  per bag make 4 bags.
\<close>

lemma example_insulation_run:
  "\<exists>rep. run_insulation_estimator example_insulation = Inr (Some rep)
     \<and> wall_area rep = 320 \<and> wall_bags rep = 4 \<and> wall_pieces rep = 80
     \<and> total_cat_area rep = 100 \<and> cat_bags rep = 1
     \<and> ceiling_area rep = 400 \<and> ceiling_bags rep = 10
     \<and> wall_batts rep = 30 \<and> cat_batts rep = [6]
     \<and> mat_total rep = 560 \<and> lab_total rep = 1165
     \<and> total_tax rep = 1811.25 \<and> total_buf rep = 1992.375"
proof -
  have "sqrt 25 = 5" by simp
  then have a: "cat_area_loop (cat_sections example_insulation) 0 = 100"
    by (simp add: example_insulation_def slope_eq power2_eq_square)
  have sel: "select_spec (wall_r_value example_insulation) (wall_width example_insulation)
       = Inr \<lparr>coverage_per_bag = 100, pieces_per_bag = 20\<rparr>"
    "select_spec (cat_r_value example_insulation) (cat_width example_insulation)
       = Inr \<lparr>coverage_per_bag = 122.7, pieces_per_bag = 16\<rparr>"
    using example_select_spec by (simp_all add: example_insulation_def)
  show ?thesis
    by (simp add: run_insulation_estimator_def sel estimate_eq a)
      (simp add: example_insulation_def num_cat_def)
qed

subsection \<open>Cathedral area, totals and labour\<close>





text \<open>
  C6. When the estimate is run on selected specifications, the labour total is wall
  labour + area labour + ceiling labour + cathedral surcharge, with wall labour = wall
  area times the wall labour rate and area labour = (wall area + total cathedral area)
  times the same rate: the wall area is charged twice in the labour total.
\<close>

theorem insulation_labour_total:
  assumes "run_estimate i"
    and "select_spec (wall_r_value i) (wall_width i) = Inr wp"
    and "select_spec (cat_r_value i) (cat_width i) = Inr cp"
  shows "\<exists>rep. run_insulation_estimator i = Inr (Some rep)
     \<and> wall_area rep = wall_linear_feet i * wall_height i
     \<and> lab_total rep = wall_lab rep + area_lab rep + ceil_lab rep + cat_surch rep
     \<and> wall_lab rep = wall_area rep * wall_labour_rate i
     \<and> area_lab rep = (wall_area rep + total_cat_area rep) * wall_labour_rate i
     \<and> lab_total rep = 2 * (wall_area rep * wall_labour_rate i)
                        + total_cat_area rep * wall_labour_rate i + ceil_lab rep + cat_surch rep"
  using assms by (simp add: run_insulation_estimator_def estimate_eq algebra_simps)

theorem insulation_labour_total_witness:
  "\<exists>rep. run_insulation_estimator example_insulation = Inr (Some rep)
     \<and> wall_area rep = 320 \<and> wall_lab rep = 320
     \<and> area_lab rep = 320 + total_cat_area rep
     \<and> lab_total rep = 640 + total_cat_area rep + ceil_lab rep + cat_surch rep"
  using insulation_labour_total [of example_insulation
      "\<lparr>coverage_per_bag = 100, pieces_per_bag = 20\<rparr>"
      "\<lparr>coverage_per_bag = 122.7, pieces_per_bag = 16\<rparr>"] example_select_spec
  by (auto simp: example_insulation_def)

subsection \<open>Positive rates\<close>



end
